theory Spec2Isabelle
  imports Main "HOL-Library.Word" "HOL-Library.Sublist"
begin

unbundle bit_operations_syntax

section \<open>Runtime configuration (prepare.go, lines 24-49)\<close>

text \<open>
  The configuration structs of \<^verbatim>\<open>pkg/init/cmd/service/prepare.go\<close>. The type
  \<^verbatim>\<open>specs.Mount\<close> of the OCI runtime specification is reduced to the four fields the
  program reads.
\<close>

record Mount =
  Destination :: string
  Type :: string
  Source :: string
  Options :: "string list"

record Namespaces =
  Cgroup :: string
  Ipc :: string
  Mnt :: string
  Net :: string
  Pid :: string
  User :: string
  Uts :: string

record Interface =
  Name :: string
  Add :: string
  Peer :: string
  CreateInRoot :: bool

record Runtime =
  Mounts :: "Mount list"
  Mkdir :: "string list"
  Interfaces :: "Interface list"
  BindNS :: Namespaces

section \<open>Mount flags\<close>

text \<open>
  Go's \<^verbatim>\<open>int\<close> is a 64-bit machine integer on the platforms LinuxKit runs on. The flag
  constants are those of \<^verbatim>\<open>golang.org/x/sys/unix\<close> for Linux, which the repository
  imports; every one of them is a non-zero bit pattern.
\<close>

type_synonym go_int = "64 word"

definition MS_RDONLY :: go_int where "MS_RDONLY = 0x1"
definition MS_NOSUID :: go_int where "MS_NOSUID = 0x2"
definition MS_NODEV :: go_int where "MS_NODEV = 0x4"
definition MS_NOEXEC :: go_int where "MS_NOEXEC = 0x8"
definition MS_SYNCHRONOUS :: go_int where "MS_SYNCHRONOUS = 0x10"
definition MS_REMOUNT :: go_int where "MS_REMOUNT = 0x20"
definition MS_MANDLOCK :: go_int where "MS_MANDLOCK = 0x40"
definition MS_DIRSYNC :: go_int where "MS_DIRSYNC = 0x80"
definition MS_NOATIME :: go_int where "MS_NOATIME = 0x400"
definition MS_NODIRATIME :: go_int where "MS_NODIRATIME = 0x800"
definition MS_BIND :: go_int where "MS_BIND = 0x1000"
definition MS_REC :: go_int where "MS_REC = 0x4000"
definition MS_PRIVATE :: go_int where "MS_PRIVATE = 0x40000"
definition MS_RELATIME :: go_int where "MS_RELATIME = 0x200000"
definition MS_STRICTATIME :: go_int where "MS_STRICTATIME = 0x1000000"

section \<open>parseMountOptions (prepare.go, lines 70-120)\<close>

text \<open>
  The table \<^verbatim>\<open>flags\<close>: a Go map from the option token to the pair
  \<^verbatim>\<open>{clear, flag}\<close>. Its keys are distinct, so an association list read with
  \<^const>\<open>map_of\<close> is the same map.
\<close>

definition flags :: "(string \<times> bool \<times> go_int) list" where
  "flags =
    [(''async'', True, MS_SYNCHRONOUS),
     (''atime'', True, MS_NOATIME),
     (''bind'', False, MS_BIND),
     (''defaults'', False, 0),
     (''dev'', True, MS_NODEV),
     (''diratime'', True, MS_NODIRATIME),
     (''dirsync'', False, MS_DIRSYNC),
     (''exec'', True, MS_NOEXEC),
     (''mand'', False, MS_MANDLOCK),
     (''noatime'', False, MS_NOATIME),
     (''nodev'', False, MS_NODEV),
     (''nodiratime'', False, MS_NODIRATIME),
     (''noexec'', False, MS_NOEXEC),
     (''nomand'', True, MS_MANDLOCK),
     (''norelatime'', True, MS_RELATIME),
     (''nostrictatime'', True, MS_STRICTATIME),
     (''nosuid'', False, MS_NOSUID),
     (''rbind'', False, MS_BIND OR MS_REC),
     (''relatime'', False, MS_RELATIME),
     (''remount'', False, MS_REMOUNT),
     (''ro'', False, MS_RDONLY),
     (''rw'', True, MS_RDONLY),
     (''strictatime'', False, MS_STRICTATIME),
     (''suid'', True, MS_NOSUID),
     (''sync'', False, MS_SYNCHRONOUS)]"

text \<open>\<^verbatim>\<open>strings.Join(elems, sep)\<close>.\<close>

fun strings_Join :: "string list \<Rightarrow> string \<Rightarrow> string" where
  "strings_Join [] sep = ''''"
| "strings_Join [x] sep = x"
| "strings_Join (x # y # ys) sep = x @ sep @ strings_Join (y # ys) sep"

text \<open>
  One iteration of the loop of lines 105-118 on the accumulators \<^verbatim>\<open>flag\<close> and
  \<^verbatim>\<open>data\<close>: \<^verbatim>\<open>flag &^= f.flag\<close> clears the bits of \<^verbatim>\<open>f.flag\<close>,
  \<^verbatim>\<open>flag |= f.flag\<close> sets them, and every other token is appended to \<^verbatim>\<open>data\<close>.
\<close>

definition parseMountOption :: "string \<Rightarrow> go_int \<times> string list \<Rightarrow> go_int \<times> string list" where
  "parseMountOption o' acc =
    (case acc of (flag, data) \<Rightarrow>
      (case map_of flags o' of
         Some (clear, f) \<Rightarrow>
           if f \<noteq> 0 then
             (if clear then (flag AND NOT f, data) else (flag OR f, data))
           else (flag, data @ [o'])
       | None \<Rightarrow> (flag, data @ [o'])))"

fun parseMountOptions_loop :: "string list \<Rightarrow> go_int \<times> string list \<Rightarrow> go_int \<times> string list" where
  "parseMountOptions_loop [] acc = acc"
| "parseMountOptions_loop (o' # os) acc = parseMountOptions_loop os (parseMountOption o' acc)"

definition parseMountOptions :: "string list \<Rightarrow> go_int \<times> string" where
  "parseMountOptions options =
    (case parseMountOptions_loop options (0, []) of
       (flag, data) \<Rightarrow> (flag, strings_Join data '',''))"

section \<open>The operating system as seen by the program\<close>

text \<open>
  An error value of the operating system or of a library. The program observes two things
  of it: \<^verbatim>\<open>os.IsNotExist(err)\<close> and the text \<^verbatim>\<open>err.Error()\<close> that the verb
  \<^verbatim>\<open>%v\<close> prints.
\<close>

datatype oserr = OSErr bool string

fun os_IsNotExist :: "oserr \<Rightarrow> bool" where
  "os_IsNotExist (OSErr notexist msg) = notexist"

fun Error :: "oserr \<Rightarrow> string" where
  "Error (OSErr notexist msg) = msg"

text \<open>
  The \<^verbatim>\<open>error\<close> a function of the program returns: a message built by
  \<^verbatim>\<open>fmt.Errorf\<close>, or the error of a call handed on unchanged (\<^verbatim>\<open>return err\<close>).
  \<^verbatim>\<open>nil\<close> is \<^const>\<open>None\<close>.
\<close>

datatype error = Errorf string | Unwrapped oserr

text \<open>An open file (\<^verbatim>\<open>*os.File\<close>), known by its descriptor.\<close>

datatype os_File = File nat

text \<open>
  \<^verbatim>\<open>netlink.LinkAttrs\<close> with the two fields the program sets; \<^verbatim>\<open>Namespace\<close> is
  either \<^verbatim>\<open>netlink.NsPid(pid)\<close> or \<^verbatim>\<open>nil\<close>. A link is one of the two kinds the
  program builds, or whatever \<^verbatim>\<open>netlink.LinkByName\<close> found.
\<close>

datatype namespace = NsPid int

datatype LinkAttrs = LinkAttrs string "namespace option"

datatype Link =
    Veth LinkAttrs string
  | GenericLink LinkAttrs string
  | Existing nat

text \<open>
  Every call the program makes to the operating system, with its arguments. File modes
  are numbers (\<^verbatim>\<open>0755\<close> is octal).
\<close>

datatype call =
    CMkdirAll string nat
  | CMkdir string nat
  | CStat string
  | CCreate string
  | CClose os_File
  | CRemoveAll string
  | CMount string string string go_int string
  | CUnmount string go_int
  | CLinkAdd Link
  | CLinkByName string
  | CLinkSetNsPid Link int
  | CFprintf string

text \<open>
  The platform: what each call answers in a world of type \<^typ>\<open>'w\<close>, and the world it
  leaves. Nothing is assumed of the answers. \<^verbatim>\<open>filepath.Join\<close> and
  \<^verbatim>\<open>filepath.Dir\<close> are pure library functions of the Go distribution, taken as given.
\<close>

record 'w platform =
  filepath_Join :: "string list \<Rightarrow> string"
  filepath_Dir :: "string \<Rightarrow> string"
  sys_MkdirAll :: "string \<Rightarrow> nat \<Rightarrow> 'w \<Rightarrow> oserr option \<times> 'w"
  sys_Mkdir :: "string \<Rightarrow> nat \<Rightarrow> 'w \<Rightarrow> oserr option \<times> 'w"
  sys_Stat :: "string \<Rightarrow> 'w \<Rightarrow> oserr option \<times> 'w"
  sys_Create :: "string \<Rightarrow> 'w \<Rightarrow> (oserr + os_File) \<times> 'w"
  sys_Close :: "os_File \<Rightarrow> 'w \<Rightarrow> oserr option \<times> 'w"
  sys_RemoveAll :: "string \<Rightarrow> 'w \<Rightarrow> oserr option \<times> 'w"
  sys_Mount :: "string \<Rightarrow> string \<Rightarrow> string \<Rightarrow> go_int \<Rightarrow> string \<Rightarrow> 'w \<Rightarrow> oserr option \<times> 'w"
  sys_Unmount :: "string \<Rightarrow> go_int \<Rightarrow> 'w \<Rightarrow> oserr option \<times> 'w"
  sys_LinkAdd :: "Link \<Rightarrow> 'w \<Rightarrow> oserr option \<times> 'w"
  sys_LinkByName :: "string \<Rightarrow> 'w \<Rightarrow> (oserr + Link) \<times> 'w"
  sys_LinkSetNsPid :: "Link \<Rightarrow> int \<Rightarrow> 'w \<Rightarrow> oserr option \<times> 'w"
  sys_Fprintf :: "string \<Rightarrow> 'w \<Rightarrow> 'w"

text \<open>
  The state threaded through the program: the world, and the trace of the calls made so
  far, each with the error it answered (\<^const>\<open>None\<close> for success).
\<close>

type_synonym event = "call \<times> oserr option"
type_synonym 'w state = "'w \<times> event list"

definition failure :: "oserr + 'a \<Rightarrow> oserr option" where
  "failure r = (case r of Inl e \<Rightarrow> Some e | Inr v \<Rightarrow> None)"

definition os_MkdirAll :: "'w platform \<Rightarrow> string \<Rightarrow> nat \<Rightarrow> 'w state \<Rightarrow> oserr option \<times> 'w state" where
  "os_MkdirAll P path perm s =
    (case s of (w, tr) \<Rightarrow>
      (case sys_MkdirAll P path perm w of (r, w') \<Rightarrow> (r, (w', tr @ [(CMkdirAll path perm, r)]))))"

definition os_Mkdir :: "'w platform \<Rightarrow> string \<Rightarrow> nat \<Rightarrow> 'w state \<Rightarrow> oserr option \<times> 'w state" where
  "os_Mkdir P path perm s =
    (case s of (w, tr) \<Rightarrow>
      (case sys_Mkdir P path perm w of (r, w') \<Rightarrow> (r, (w', tr @ [(CMkdir path perm, r)]))))"

definition os_Stat :: "'w platform \<Rightarrow> string \<Rightarrow> 'w state \<Rightarrow> oserr option \<times> 'w state" where
  "os_Stat P path s =
    (case s of (w, tr) \<Rightarrow>
      (case sys_Stat P path w of (r, w') \<Rightarrow> (r, (w', tr @ [(CStat path, r)]))))"

definition os_Create :: "'w platform \<Rightarrow> string \<Rightarrow> 'w state \<Rightarrow> (oserr + os_File) \<times> 'w state" where
  "os_Create P path s =
    (case s of (w, tr) \<Rightarrow>
      (case sys_Create P path w of (r, w') \<Rightarrow> (r, (w', tr @ [(CCreate path, failure r)]))))"

definition file_Close :: "'w platform \<Rightarrow> os_File \<Rightarrow> 'w state \<Rightarrow> oserr option \<times> 'w state" where
  "file_Close P fi s =
    (case s of (w, tr) \<Rightarrow>
      (case sys_Close P fi w of (r, w') \<Rightarrow> (r, (w', tr @ [(CClose fi, r)]))))"

definition os_RemoveAll :: "'w platform \<Rightarrow> string \<Rightarrow> 'w state \<Rightarrow> oserr option \<times> 'w state" where
  "os_RemoveAll P path s =
    (case s of (w, tr) \<Rightarrow>
      (case sys_RemoveAll P path w of (r, w') \<Rightarrow> (r, (w', tr @ [(CRemoveAll path, r)]))))"

definition unix_Mount ::
  "'w platform \<Rightarrow> string \<Rightarrow> string \<Rightarrow> string \<Rightarrow> go_int \<Rightarrow> string \<Rightarrow> 'w state \<Rightarrow> oserr option \<times> 'w state" where
  "unix_Mount P source target fstype flgs data s =
    (case s of (w, tr) \<Rightarrow>
      (case sys_Mount P source target fstype flgs data w of
         (r, w') \<Rightarrow> (r, (w', tr @ [(CMount source target fstype flgs data, r)]))))"

definition unix_Unmount :: "'w platform \<Rightarrow> string \<Rightarrow> go_int \<Rightarrow> 'w state \<Rightarrow> oserr option \<times> 'w state" where
  "unix_Unmount P target flgs s =
    (case s of (w, tr) \<Rightarrow>
      (case sys_Unmount P target flgs w of (r, w') \<Rightarrow> (r, (w', tr @ [(CUnmount target flgs, r)]))))"

definition netlink_LinkAdd :: "'w platform \<Rightarrow> Link \<Rightarrow> 'w state \<Rightarrow> oserr option \<times> 'w state" where
  "netlink_LinkAdd P link s =
    (case s of (w, tr) \<Rightarrow>
      (case sys_LinkAdd P link w of (r, w') \<Rightarrow> (r, (w', tr @ [(CLinkAdd link, r)]))))"

definition netlink_LinkByName :: "'w platform \<Rightarrow> string \<Rightarrow> 'w state \<Rightarrow> (oserr + Link) \<times> 'w state" where
  "netlink_LinkByName P name s =
    (case s of (w, tr) \<Rightarrow>
      (case sys_LinkByName P name w of (r, w') \<Rightarrow> (r, (w', tr @ [(CLinkByName name, failure r)]))))"

definition netlink_LinkSetNsPid :: "'w platform \<Rightarrow> Link \<Rightarrow> int \<Rightarrow> 'w state \<Rightarrow> oserr option \<times> 'w state" where
  "netlink_LinkSetNsPid P link nspid s =
    (case s of (w, tr) \<Rightarrow>
      (case sys_LinkSetNsPid P link nspid w of
         (r, w') \<Rightarrow> (r, (w', tr @ [(CLinkSetNsPid link nspid, r)]))))"

text \<open>\<^verbatim>\<open>fmt.Fprintf(os.Stderr, ...)\<close>: the program drops its result.\<close>

definition fmt_Fprintf :: "'w platform \<Rightarrow> string \<Rightarrow> 'w state \<Rightarrow> 'w state" where
  "fmt_Fprintf P text s =
    (case s of (w, tr) \<Rightarrow> (sys_Fprintf P text w, tr @ [(CFprintf text, None)]))"

text \<open>The verb \<^verbatim>\<open>%d\<close> on an \<^verbatim>\<open>int\<close>: decimal digits, with a minus sign below zero.\<close>

fun decimal :: "nat \<Rightarrow> string" where
  "decimal n =
    (if n < 10 then [''0123456789'' ! n]
     else decimal (n div 10) @ [''0123456789'' ! (n mod 10)])"

definition itoa :: "int \<Rightarrow> string" where
  "itoa i = (if i < 0 then ''-'' @ decimal (nat (- i)) else decimal (nat i))"

text \<open>The file mode \<^verbatim>\<open>0755\<close> (octal).\<close>

definition mode_0755 :: nat where
  "mode_0755 = 7 * 64 + 5 * 8 + 5"

section \<open>prepareFilesystem (prepare.go, lines 122-193)\<close>

text \<open>
  The loop over \<^verbatim>\<open>runtime.Mounts\<close> (lines 127-137): the destination is created with
  \<^verbatim>\<open>os.MkdirAll\<close>, then the mount is made with the translated options. The first error
  is returned from \<^verbatim>\<open>prepareFilesystem\<close>.
\<close>

fun prepareFilesystem_mounts :: "'w platform \<Rightarrow> Mount list \<Rightarrow> 'w state \<Rightarrow> error option \<times> 'w state" where
  "prepareFilesystem_mounts P [] s = (None, s)"
| "prepareFilesystem_mounts P (mount # mounts) s =
    (case os_MkdirAll P (Destination mount) mode_0755 s of
       (Some err, s1) \<Rightarrow>
         (Some (Errorf (''Cannot create directory for mount destination '' @ Destination mount
                         @ '': '' @ Error err)), s1)
     | (None, s1) \<Rightarrow>
         (case parseMountOptions (Options mount) of (opts, data) \<Rightarrow>
           (case unix_Mount P (Source mount) (Destination mount) (Type mount) opts data s1 of
              (Some err, s2) \<Rightarrow>
                (Some (Errorf (''Failed to mount '' @ Source mount @ '': '' @ Error err)), s2)
            | (None, s2) \<Rightarrow> prepareFilesystem_mounts P mounts s2)))"

text \<open>The loop over \<^verbatim>\<open>runtime.Mkdir\<close> (lines 138-145).\<close>

fun prepareFilesystem_mkdirs :: "'w platform \<Rightarrow> string list \<Rightarrow> 'w state \<Rightarrow> error option \<times> 'w state" where
  "prepareFilesystem_mkdirs P [] s = (None, s)"
| "prepareFilesystem_mkdirs P (dir # dirs) s =
    (case os_MkdirAll P dir mode_0755 s of
       (Some err, s1) \<Rightarrow>
         (Some (Errorf (''Cannot create directory '' @ dir @ '': '' @ Error err)), s1)
     | (None, s1) \<Rightarrow> prepareFilesystem_mkdirs P dirs s1)"

definition prepareRO :: "'w platform \<Rightarrow> string \<Rightarrow> 'w state \<Rightarrow> error option \<times> 'w state" where
  "prepareRO P path s =
    (let rootfs = filepath_Join P [path, ''rootfs''] in
     case unix_Mount P rootfs rootfs [] MS_BIND [] s of
       (Some err, s1) \<Rightarrow> (Some (Unwrapped err), s1)
     | (None, s1) \<Rightarrow> (None, s1))"

definition prepareRW :: "'w platform \<Rightarrow> string \<Rightarrow> 'w state \<Rightarrow> error option \<times> 'w state" where
  "prepareRW P path s =
    (let tmp = filepath_Join P [path, ''tmp''] in
     case unix_Mount P ''tmpfs'' tmp ''tmpfs'' 0 ''size=10%'' s of
       (Some err, s1) \<Rightarrow> (Some (Unwrapped err), s1)
     | (None, s1) \<Rightarrow>
     (case unix_Mount P [] tmp [] (MS_REMOUNT OR MS_PRIVATE) [] s1 of
       (Some err, s2) \<Rightarrow> (Some (Unwrapped err), s2)
     | (None, s2) \<Rightarrow>
     (let upper = filepath_Join P [tmp, ''upper''] in
      case os_Mkdir P upper mode_0755 s2 of
       (Some err, s3) \<Rightarrow> (Some (Unwrapped err), s3)
     | (None, s3) \<Rightarrow>
     (let work = filepath_Join P [tmp, ''work''] in
      case os_Mkdir P work mode_0755 s3 of
       (Some err, s4) \<Rightarrow> (Some (Unwrapped err), s4)
     | (None, s4) \<Rightarrow>
     (let lower = filepath_Join P [path, ''lower''];
          rootfs = filepath_Join P [path, ''rootfs''];
          opt = ''lowerdir='' @ lower @ '',upperdir='' @ upper @ '',workdir='' @ work in
      case unix_Mount P ''overlay'' rootfs ''overlay'' 0 opt s4 of
       (Some err, s5) \<Rightarrow> (Some (Unwrapped err), s5)
     | (None, s5) \<Rightarrow> (None, s5))))))"

definition prepareFilesystem :: "'w platform \<Rightarrow> string \<Rightarrow> Runtime \<Rightarrow> 'w state \<Rightarrow> error option \<times> 'w state" where
  "prepareFilesystem P path runtime s =
    (case prepareFilesystem_mounts P (Mounts runtime) s of
       (Some e, s1) \<Rightarrow> (Some e, s1)
     | (None, s1) \<Rightarrow>
     (case prepareFilesystem_mkdirs P (Mkdir runtime) s1 of
       (Some e, s2) \<Rightarrow> (Some e, s2)
     | (None, s2) \<Rightarrow>
     (case os_Stat P (filepath_Join P [path, ''lower'']) s2 of
       (Some err, s3) \<Rightarrow>
         if os_IsNotExist err then prepareRO P path s3 else (Some (Unwrapped err), s3)
     | (None, s3) \<Rightarrow> prepareRW P path s3)))"

section \<open>bindNS (prepare.go, lines 195-216)\<close>

definition bindNS :: "'w platform \<Rightarrow> string \<Rightarrow> string \<Rightarrow> int \<Rightarrow> 'w state \<Rightarrow> error option \<times> 'w state" where
  "bindNS P ns path pid s =
    (if path = [] then (None, s)
     else
     (let dir = filepath_Dir P path in
      case os_MkdirAll P dir mode_0755 s of
       (Some err, s1) \<Rightarrow>
         (Some (Errorf (''Cannot create leading directories '' @ dir
                         @ '' for bind mount destination: '' @ Error err)), s1)
     | (None, s1) \<Rightarrow>
     (case os_Create P path s1 of
       (Inl err, s2) \<Rightarrow>
         (Some (Errorf (''Cannot create a mount point for namespace bind at '' @ path
                         @ '': '' @ Error err)), s2)
     | (Inr fi, s2) \<Rightarrow>
     (case file_Close P fi s2 of
       (Some err, s3) \<Rightarrow> (Some (Unwrapped err), s3)
     | (None, s3) \<Rightarrow>
     (case unix_Mount P (''/proc/'' @ itoa pid @ ''/ns/'' @ ns) path [] MS_BIND [] s3 of
       (Some err, s4) \<Rightarrow>
         (Some (Errorf (''Failed to bind '' @ ns @ '' namespace at '' @ path
                         @ '': '' @ Error err)), s4)
     | (None, s4) \<Rightarrow> (None, s4))))))"

section \<open>prepareProcess (prepare.go, lines 218-297)\<close>

text \<open>
  The process id is a Go \<^verbatim>\<open>int\<close> that the program prints and hands on to calls; no
  arithmetic is done on it, so it is an \<^typ>\<open>int\<close> here.
\<close>

text \<open>
  Lines 269-274, the end of the loop body: the link is moved into the namespace of
  \<^verbatim>\<open>pid\<close> when \<^verbatim>\<open>move\<close> is set.
\<close>

definition prepareProcess_move ::
  "'w platform \<Rightarrow> int \<Rightarrow> Interface \<Rightarrow> Link \<Rightarrow> bool \<Rightarrow> 'w state \<Rightarrow> error option \<times> 'w state" where
  "prepareProcess_move P pid iface link move s =
    (if move then
       (case netlink_LinkSetNsPid P link pid s of
          (Some err, s1) \<Rightarrow>
            (Some (Errorf (''Cannot move interface '' @ Name iface @ '' into namespace: ''
                            @ Error err)), s1)
        | (None, s1) \<Rightarrow>
            (None, fmt_Fprintf P (''Moved interface '' @ Name iface @ '' to pid '' @ itoa pid
                                   @ [CHR 0x0A]) s1))
     else (None, s))"

text \<open>Lines 256-259, after the \<^verbatim>\<open>switch\<close>: the link is created, then the body goes on.\<close>

definition prepareProcess_add ::
  "'w platform \<Rightarrow> int \<Rightarrow> Interface \<Rightarrow> Link \<Rightarrow> bool \<Rightarrow> 'w state \<Rightarrow> error option \<times> 'w state" where
  "prepareProcess_add P pid iface link move s =
    (case netlink_LinkAdd P link s of
       (Some err, s1) \<Rightarrow>
         (Some (Errorf (''Link add '' @ Name iface @ '' of type '' @ Add iface @ '' failed: ''
                         @ Error err)), s1)
     | (None, s1) \<Rightarrow>
         prepareProcess_move P pid iface link move
           (fmt_Fprintf P (''Created interface '' @ Name iface @ '' type '' @ Add iface
                            @ [CHR 0x0A]) s1))"

text \<open>
  The body of the loop over \<^verbatim>\<open>runtime.Interfaces\<close> (lines 222-274). \<^verbatim>\<open>iface\<close> is the
  loop's copy of the element, which line 233 may change; \<^verbatim>\<open>ns\<close> starts as
  \<^verbatim>\<open>netlink.NsPid(pid)\<close> and \<^verbatim>\<open>move\<close> as false.
\<close>

definition prepareProcess_iface ::
  "'w platform \<Rightarrow> int \<Rightarrow> Interface \<Rightarrow> 'w state \<Rightarrow> error option \<times> 'w state" where
  "prepareProcess_iface P pid iface0 s =
    (if Name iface0 = [] then (Some (Errorf ''Interface requires a name''), s)
     else
     (let iface = (if Peer iface0 \<noteq> [] \<and> Add iface0 = [] then iface0\<lparr>Add := ''veth''\<rparr>
                   else iface0);
          (ns, move) = (if CreateInRoot iface \<or> Add iface = ''veth'' then (None, True)
                        else (Some (NsPid pid), False))
      in
      if Add iface \<noteq> [] then
        (if Add iface = ''veth'' then
           (if Peer iface = [] then
              (Some (Errorf (''Creating a veth pair '' @ Name iface
                              @ '' requires a peer to be set'')), s)
            else prepareProcess_add P pid iface
                   (Veth (LinkAttrs (Name iface) ns) (Peer iface)) move s)
         else prepareProcess_add P pid iface
                (GenericLink (LinkAttrs (Name iface) ns) (Add iface)) move s)
      else
        (case netlink_LinkByName P (Name iface) s of
           (Inl err, s1) \<Rightarrow>
             (Some (Errorf (''Cannot find interface '' @ Name iface @ '': '' @ Error err)), s1)
         | (Inr link, s1) \<Rightarrow> prepareProcess_move P pid iface link True s1)))"

fun prepareProcess_interfaces ::
  "'w platform \<Rightarrow> int \<Rightarrow> Interface list \<Rightarrow> 'w state \<Rightarrow> error option \<times> 'w state" where
  "prepareProcess_interfaces P pid [] s = (None, s)"
| "prepareProcess_interfaces P pid (iface # ifaces) s =
    (case prepareProcess_iface P pid iface s of
       (Some e, s1) \<Rightarrow> (Some e, s1)
     | (None, s1) \<Rightarrow> prepareProcess_interfaces P pid ifaces s1)"

text \<open>The loop over \<^verbatim>\<open>binds\<close> (lines 290-294).\<close>

fun prepareProcess_binds ::
  "'w platform \<Rightarrow> int \<Rightarrow> (string \<times> string) list \<Rightarrow> 'w state \<Rightarrow> error option \<times> 'w state" where
  "prepareProcess_binds P pid [] s = (None, s)"
| "prepareProcess_binds P pid (b # bs) s =
    (case bindNS P (fst b) (snd b) pid s of
       (Some err, s1) \<Rightarrow> (Some err, s1)
     | (None, s1) \<Rightarrow> prepareProcess_binds P pid bs s1)"

definition prepareProcess :: "'w platform \<Rightarrow> int \<Rightarrow> Runtime \<Rightarrow> 'w state \<Rightarrow> error option \<times> 'w state" where
  "prepareProcess P pid runtime s =
    (case prepareProcess_interfaces P pid (Interfaces runtime) s of
       (Some e, s1) \<Rightarrow> (Some e, s1)
     | (None, s1) \<Rightarrow>
     (let binds =
        [(''cgroup'', Cgroup (BindNS runtime)),
         (''ipc'', Ipc (BindNS runtime)),
         (''mnt'', Mnt (BindNS runtime)),
         (''net'', Net (BindNS runtime)),
         (''pid'', Pid (BindNS runtime)),
         (''user'', User (BindNS runtime)),
         (''uts'', Uts (BindNS runtime))]
      in prepareProcess_binds P pid binds s1))"

section \<open>cleanup (prepare.go, lines 299-324)\<close>

text \<open>The cleanup functions return nothing: every error is dropped (\<^verbatim>\<open>_ =\<close>).\<close>

definition cleanupRO :: "'w platform \<Rightarrow> string \<Rightarrow> 'w state \<Rightarrow> 'w state" where
  "cleanupRO P path s =
    (let rootfs = filepath_Join P [path, ''rootfs''] in
     snd (unix_Unmount P rootfs 0 s))"

definition cleanupRW :: "'w platform \<Rightarrow> string \<Rightarrow> 'w state \<Rightarrow> 'w state" where
  "cleanupRW P path s =
    (let rootfs = filepath_Join P [path, ''rootfs''];
         s1 = snd (os_RemoveAll P rootfs s);
         s2 = snd (unix_Unmount P rootfs 0 s1);
         tmp = filepath_Join P [path, ''tmp''];
         s3 = snd (os_RemoveAll P tmp s2)
     in snd (unix_Unmount P tmp 0 s3))"

definition cleanup :: "'w platform \<Rightarrow> string \<Rightarrow> 'w state \<Rightarrow> 'w state" where
  "cleanup P path s =
    (case os_Stat P (filepath_Join P [path, ''lower'']) s of
       (Some err, s1) \<Rightarrow> cleanupRO P path s1
     | (None, s1) \<Rightarrow> cleanupRW P path s1)"

section \<open>Platforms for worked examples\<close>

text \<open>
  A scripted world is the list of answers still to be given: each call takes the next
  one, and a call past the end of the script succeeds. Paths are joined with a slash and
  the directory of a path is what stands before its last slash, which is what the Go
  library computes on the clean paths of the examples below.
\<close>

definition answer :: "oserr option list \<Rightarrow> oserr option \<times> oserr option list" where
  "answer w = (case w of [] \<Rightarrow> (None, []) | r # rs \<Rightarrow> (r, rs))"

definition answer_with :: "'a \<Rightarrow> oserr option list \<Rightarrow> (oserr + 'a) \<times> oserr option list" where
  "answer_with v w = (case answer w of (None, w') \<Rightarrow> (Inr v, w') | (Some e, w') \<Rightarrow> (Inl e, w'))"

definition scripted :: "(oserr option list) platform" where
  "scripted =
    \<lparr> filepath_Join = (\<lambda>elems. strings_Join elems ''/''),
      filepath_Dir = (\<lambda>p. rev (drop 1 (dropWhile (\<lambda>c. c \<noteq> CHR ''/'') (rev p)))),
      sys_MkdirAll = (\<lambda>path perm. answer),
      sys_Mkdir = (\<lambda>path perm. answer),
      sys_Stat = (\<lambda>path. answer),
      sys_Create = (\<lambda>path. answer_with (File 3)),
      sys_Close = (\<lambda>fi. answer),
      sys_RemoveAll = (\<lambda>path. answer),
      sys_Mount = (\<lambda>source target fstype flgs data. answer),
      sys_Unmount = (\<lambda>target flgs. answer),
      sys_LinkAdd = (\<lambda>link. answer),
      sys_LinkByName = (\<lambda>name. answer_with (Existing 7)),
      sys_LinkSetNsPid = (\<lambda>link nspid. answer),
      sys_Fprintf = (\<lambda>text w. w) \<rparr>"

text \<open>Two errors: the path does not exist (ENOENT), and permission is denied (EACCES).\<close>

definition ENOENT :: oserr where
  "ENOENT = OSErr True ''no such file or directory''"

definition EACCES :: oserr where
  "EACCES = OSErr False ''permission denied''"

text \<open>
  A configuration with two mounts, a directory, an interface of kind \<^verbatim>\<open>dummy\<close> and
  binds for the \<^verbatim>\<open>net\<close> and \<^verbatim>\<open>uts\<close> namespaces.
\<close>

definition example_runtime :: Runtime where
  "example_runtime =
    \<lparr> Mounts =
        [\<lparr>Destination = ''/var/lib'', Type = ''tmpfs'', Source = ''tmpfs'',
          Options = [''nosuid'', ''size=10%'']\<rparr>,
         \<lparr>Destination = ''/mnt/data'', Type = ''ext4'', Source = ''/dev/sda1'',
          Options = [''ro'']\<rparr>],
      Mkdir = [''/var/lib/x''],
      Interfaces = [\<lparr>Name = ''dummy0'', Add = ''dummy'', Peer = [], CreateInRoot = False\<rparr>],
      BindNS = \<lparr> Cgroup = [], Ipc = [], Mnt = [], Net = ''/run/ns/net'', Pid = [], User = [],
                 Uts = ''/run/ns/uts'' \<rparr> \<rparr>"

section \<open>Notions used to state the properties\<close>

text \<open>The bits a token acts on: those of its table entry, none for a token outside the table.\<close>

definition option_bits :: "string \<Rightarrow> go_int" where
  "option_bits t = (case map_of flags t of Some (clear, f) \<Rightarrow> f | None \<Rightarrow> 0)"

text \<open>
  A run of a list of steps that stops at the first failure, seen in the trace: the events
  are the first steps of the list in order, at least one; every event but the last is a
  success; and if the last one is a success too, every step of the list was made.
\<close>

definition runs_until_failure :: "call list \<Rightarrow> event list \<Rightarrow> bool" where
  "runs_until_failure steps evs =
    (evs \<noteq> [] \<and> length evs \<le> length steps
     \<and> map fst evs = take (length evs) steps
     \<and> list_all (\<lambda>ev. snd ev = None) (butlast evs)
     \<and> (snd (last evs) = None \<longrightarrow> length evs = length steps))"

text \<open>The configuration that asks for nothing (what a missing \<^verbatim>\<open>runtime.json\<close> gives).\<close>

definition empty_runtime :: Runtime where
  "empty_runtime =
    \<lparr> Mounts = [], Mkdir = [], Interfaces = [],
      BindNS = \<lparr> Cgroup = [], Ipc = [], Mnt = [], Net = [], Pid = [], User = [], Uts = [] \<rparr> \<rparr>"

text \<open>
  The creation kind in force for an interface after line 233: \<^verbatim>\<open>veth\<close> when a peer is
  given and \<^verbatim>\<open>add\<close> is empty, the declared \<^verbatim>\<open>add\<close> otherwise.
\<close>

definition effective_Add :: "Interface \<Rightarrow> string" where
  "effective_Add iface = (if Peer iface \<noteq> [] \<and> Add iface = [] then ''veth'' else Add iface)"





text \<open>
  The two calls \<^verbatim>\<open>prepareFilesystem\<close> makes for one entry of \<^verbatim>\<open>runtime.Mounts\<close>, and
  the events of a list of calls that all succeeded.
\<close>

definition mount_steps :: "Mount \<Rightarrow> call list" where
  "mount_steps m =
    [CMkdirAll (Destination m) mode_0755,
     CMount (Source m) (Destination m) (Type m)
       (fst (parseMountOptions (Options m))) (snd (parseMountOptions (Options m)))]"

definition succeeded :: "call list \<Rightarrow> event list" where
  "succeeded cs = map (\<lambda>c. (c, None)) cs"


section \<open>Properties of parseMountOptions\<close>

lemma map_of_flags_defaults: "map_of flags ''defaults'' = Some (False, 0)"
  by (simp add: flags_def)

lemma map_of_flags_ro: "map_of flags ''ro'' = Some (False, MS_RDONLY)"
  by (simp add: flags_def)

lemma map_of_flags_rw: "map_of flags ''rw'' = Some (True, MS_RDONLY)"
  by (simp add: flags_def)

lemma map_of_flags_nosuid: "map_of flags ''nosuid'' = Some (False, MS_NOSUID)"
  by (simp add: flags_def)

lemma parseMountOptions_loop_append:
  "parseMountOptions_loop (xs @ ys) acc = parseMountOptions_loop ys (parseMountOptions_loop xs acc)"
  by (induction xs arbitrary: acc) auto

lemma parseMountOption_data_irrelevant:
  "fst (parseMountOption t (flag, data)) = fst (parseMountOption t (flag, data'))"
  by (auto simp: parseMountOption_def split: option.splits)

lemma parseMountOption_snd:
  "snd (parseMountOption t (flag, data)) = (if option_bits t = 0 then data @ [t] else data)"
  by (auto simp: parseMountOption_def option_bits_def split: option.splits)

lemma parseMountOptions_loop_snd:
  "snd (parseMountOptions_loop ts (flag, data)) = data @ filter (\<lambda>t. option_bits t = 0) ts"
proof (induction ts arbitrary: flag data)
  case Nil
  then show ?case by simp
next
  case (Cons t ts)
  obtain f d where e: "parseMountOption t (flag, data) = (f, d)"
    by (cases "parseMountOption t (flag, data)")
  with parseMountOption_snd[of t flag data]
  have "d = (if option_bits t = 0 then data @ [t] else data)" by simp
  with Cons.IH[of f d] e show ?case by simp
qed

lemma parseMountOptions_loop_fst_data:
  "fst (parseMountOptions_loop ts (flag, data)) = fst (parseMountOptions_loop ts (flag, data'))"
proof (induction ts arbitrary: flag data data')
  case Nil
  then show ?case by simp
next
  case (Cons t ts)
  obtain f d where e: "parseMountOption t (flag, data) = (f, d)"
    by (cases "parseMountOption t (flag, data)")
  obtain f' d' where e': "parseMountOption t (flag, data') = (f', d')"
    by (cases "parseMountOption t (flag, data')")
  from e e' parseMountOption_data_irrelevant[of t flag data data'] have "f' = f" by simp
  with Cons.IH[of f d d'] e e' show ?case by simp
qed

lemma parseMountOptions_loop_filter_defaults:
  "fst (parseMountOptions_loop ts (flag, data)) =
   fst (parseMountOptions_loop (filter (\<lambda>t. t \<noteq> ''defaults'') ts) (flag, data))"
proof (induction ts arbitrary: flag data)
  case Nil
  then show ?case by simp
next
  case (Cons t ts)
  show ?case
  proof (cases "t = ''defaults''")
    case True
    have "parseMountOption t (flag, data) = (flag, data @ [t])"
      using True by (simp add: parseMountOption_def map_of_flags_defaults)
    then have "fst (parseMountOptions_loop (t # ts) (flag, data)) =
               fst (parseMountOptions_loop ts (flag, data @ [t]))" by simp
    also have "\<dots> = fst (parseMountOptions_loop ts (flag, data))"
      by (rule parseMountOptions_loop_fst_data)
    also have "\<dots> = fst (parseMountOptions_loop (filter (\<lambda>t. t \<noteq> ''defaults'') ts) (flag, data))"
      by (rule Cons.IH)
    finally show ?thesis using True by simp
  next
    case False
    obtain f d where e: "parseMountOption t (flag, data) = (f, d)"
      by (cases "parseMountOption t (flag, data)")
    with Cons.IH[of f d] False show ?thesis by simp
  qed
qed

lemma parseMountOptions_fst: "fst (parseMountOptions ts) = fst (parseMountOptions_loop ts (0, []))"
  by (simp add: parseMountOptions_def split: prod.splits)

lemma parseMountOptions_snd:
  "snd (parseMountOptions ts) = strings_Join (snd (parseMountOptions_loop ts (0, []))) '',''"
  by (simp add: parseMountOptions_def split: prod.splits)

lemma and_not_and: "g AND f = 0 \<Longrightarrow> (x AND NOT g) AND f = x AND (f::go_int)"
  by (metis (no_types) and.assoc and.commute bit.conj_disj_distrib bit.disj_cancel_right
      and.right_neutral or.commute or.right_neutral)

lemma or_and: "g AND f = 0 \<Longrightarrow> (x OR g) AND f = x AND (f::go_int)"
  by (simp add: bit.conj_disj_distrib2)

lemma parseMountOption_untouched:
  "option_bits u AND f = 0 \<Longrightarrow> fst (parseMountOption u (flag, data)) AND f = flag AND f"
  by (auto simp: parseMountOption_def option_bits_def and_not_and or_and split: option.splits)

lemma parseMountOptions_loop_untouched:
  "\<forall>u\<in>set us. option_bits u AND f = 0 \<Longrightarrow>
   fst (parseMountOptions_loop us (flag, data)) AND f = flag AND f"
proof (induction us arbitrary: flag data)
  case Nil
  then show ?case by simp
next
  case (Cons u us)
  obtain g d where e: "parseMountOption u (flag, data) = (g, d)"
    by (cases "parseMountOption u (flag, data)")
  from Cons.prems have "option_bits u AND f = 0" by simp
  from parseMountOption_untouched[OF this, of flag data] e have "g AND f = flag AND f" by simp
  moreover from Cons.prems have "fst (parseMountOptions_loop us (g, d)) AND f = g AND f"
    by (intro Cons.IH) simp
  ultimately show ?case using e by simp
qed

lemma parseMountOption_decides:
  "map_of flags t = Some (clear, f) \<Longrightarrow> f \<noteq> 0 \<Longrightarrow>
   fst (parseMountOption t (flag, data)) AND f = (if clear then 0 else f)"
  by (auto simp: parseMountOption_def and.assoc)

text \<open>
  C2, as amended. On the flag bitset the token \<^verbatim>\<open>defaults\<close> is a no-op: a list and the
  same list with every \<^verbatim>\<open>defaults\<close> removed translate to the same flags. The data
  string is the comma-joined list of the tokens that act on no bit, in input order, and
  \<^verbatim>\<open>defaults\<close> is such a token: every occurrence of it is kept in the data string.
\<close>

theorem parseMountOptions_defaults:
  "fst (parseMountOptions ts) = fst (parseMountOptions (filter (\<lambda>t. t \<noteq> ''defaults'') ts))
   \<and> snd (parseMountOptions ts) = strings_Join (filter (\<lambda>t. option_bits t = 0) ts) '',''
   \<and> option_bits ''defaults'' = 0"
  by (simp add: parseMountOptions_fst parseMountOptions_snd parseMountOptions_loop_snd
      option_bits_def map_of_flags_defaults parseMountOptions_loop_filter_defaults[of ts])

text \<open>
  C2 as stated fails: the list \<^verbatim>\<open>[defaults]\<close> translates to the data string
  \<^verbatim>\<open>defaults\<close>, the list without it (the empty list) to the empty data string.
\<close>

theorem parseMountOptions_defaults_counterexample:
  "parseMountOptions [''defaults''] = (0, ''defaults'') \<and> parseMountOptions [] = (0, '''')"
  by (simp add: parseMountOptions_def parseMountOption_def map_of_flags_defaults)

text \<open>
  C9. Tokens are processed in input order: translating \<^verbatim>\<open>ts @ us\<close> is running the loop
  over \<^verbatim>\<open>us\<close> from the flags of \<^verbatim>\<open>ts\<close>. The last token that acts on given bits wins:
  when \<^verbatim>\<open>t\<close> is in the table with bits \<^verbatim>\<open>f\<close> and no later token acts on any of them,
  those bits are all clear in the result if \<^verbatim>\<open>t\<close> is a clearing token and all set if it
  is a setting token, whatever stood before \<^verbatim>\<open>t\<close>. In particular \<^verbatim>\<open>ro,rw\<close> yields
  RDONLY cleared and \<^verbatim>\<open>rw,ro\<close> yields RDONLY set.
\<close>

theorem parseMountOptions_last_wins:
  "fst (parseMountOptions (ts @ us)) =
     fst (parseMountOptions_loop us (fst (parseMountOptions ts), []))
   \<and> (map_of flags t = Some (clear, f) \<and> f \<noteq> 0 \<and> (\<forall>u\<in>set us. option_bits u AND f = 0)
        \<longrightarrow> fst (parseMountOptions (ts @ t # us)) AND f = (if clear then 0 else f))
   \<and> fst (parseMountOptions [''ro'', ''rw'']) AND MS_RDONLY = 0
   \<and> fst (parseMountOptions [''rw'', ''ro'']) AND MS_RDONLY = MS_RDONLY"
proof (intro conjI impI)
  obtain g d where e: "parseMountOptions_loop ts (0, []) = (g, d)"
    by (cases "parseMountOptions_loop ts (0, [])")
  then show "fst (parseMountOptions (ts @ us)) =
      fst (parseMountOptions_loop us (fst (parseMountOptions ts), []))"
    using parseMountOptions_loop_fst_data[of us g d "[]"]
    by (simp add: parseMountOptions_fst parseMountOptions_loop_append)
next
  assume a: "map_of flags t = Some (clear, f) \<and> f \<noteq> 0 \<and> (\<forall>u\<in>set us. option_bits u AND f = 0)"
  obtain g d where e: "parseMountOptions_loop ts (0, []) = (g, d)"
    by (cases "parseMountOptions_loop ts (0, [])")
  obtain g' d' where e': "parseMountOption t (g, d) = (g', d')"
    by (cases "parseMountOption t (g, d)")
  from a parseMountOption_decides[of t clear f g d] e'
  have "g' AND f = (if clear then 0 else f)" by simp
  moreover from a have "fst (parseMountOptions_loop us (g', d')) AND f = g' AND f"
    by (intro parseMountOptions_loop_untouched) simp
  ultimately show "fst (parseMountOptions (ts @ t # us)) AND f = (if clear then 0 else f)"
    using e e' by (simp add: parseMountOptions_fst parseMountOptions_loop_append)
next
  show "fst (parseMountOptions [''ro'', ''rw'']) AND MS_RDONLY = 0"
    by (simp add: parseMountOptions_def parseMountOption_def map_of_flags_ro map_of_flags_rw
        MS_RDONLY_def)
next
  show "fst (parseMountOptions [''rw'', ''ro'']) AND MS_RDONLY = MS_RDONLY"
    by (simp add: parseMountOptions_def parseMountOption_def map_of_flags_ro map_of_flags_rw
        MS_RDONLY_def)
qed

text \<open>
  Witness for C9: in \<^verbatim>\<open>ro,rw,nosuid\<close> the token \<^verbatim>\<open>rw\<close> is the last to act on RDONLY,
  so RDONLY is clear.
\<close>

theorem parseMountOptions_last_wins_witness:
  "map_of flags ''rw'' = Some (True, MS_RDONLY) \<and> MS_RDONLY \<noteq> 0
   \<and> option_bits ''nosuid'' AND MS_RDONLY = 0
   \<and> fst (parseMountOptions [''ro'', ''rw'', ''nosuid'']) AND MS_RDONLY = 0"
proof -
  have h1: "map_of flags ''rw'' = Some (True, MS_RDONLY)" by (rule map_of_flags_rw)
  have h2: "MS_RDONLY \<noteq> 0" by (simp add: MS_RDONLY_def)
  have h3: "option_bits ''nosuid'' AND MS_RDONLY = 0"
    by (simp add: option_bits_def map_of_flags_nosuid MS_NOSUID_def MS_RDONLY_def)
  from parseMountOptions_last_wins[of "[''ro'']" "[''nosuid'']" "''rw''" True MS_RDONLY] h1 h2 h3
  have "fst (parseMountOptions ([''ro''] @ ''rw'' # [''nosuid''])) AND MS_RDONLY = 0"
    by simp
  with h1 h2 h3 show ?thesis by simp
qed

section \<open>Calls and their traces\<close>

lemma os_MkdirAll_run:
  "os_MkdirAll P path perm (w, tr) =
    (fst (sys_MkdirAll P path perm w),
     snd (sys_MkdirAll P path perm w),
     tr @ [(CMkdirAll path perm, fst (sys_MkdirAll P path perm w))])"
  by (simp add: os_MkdirAll_def split: prod.splits)

lemma os_Mkdir_run:
  "os_Mkdir P path perm (w, tr) =
    (fst (sys_Mkdir P path perm w),
     snd (sys_Mkdir P path perm w), tr @ [(CMkdir path perm, fst (sys_Mkdir P path perm w))])"
  by (simp add: os_Mkdir_def split: prod.splits)

lemma os_Stat_run:
  "os_Stat P path (w, tr) =
    (fst (sys_Stat P path w), snd (sys_Stat P path w), tr @ [(CStat path, fst (sys_Stat P path w))])"
  by (simp add: os_Stat_def split: prod.splits)

lemma os_Create_run:
  "os_Create P path (w, tr) =
    (fst (sys_Create P path w),
     snd (sys_Create P path w), tr @ [(CCreate path, failure (fst (sys_Create P path w)))])"
  by (simp add: os_Create_def split: prod.splits)

lemma file_Close_run:
  "file_Close P fi (w, tr) =
    (fst (sys_Close P fi w), snd (sys_Close P fi w), tr @ [(CClose fi, fst (sys_Close P fi w))])"
  by (simp add: file_Close_def split: prod.splits)

lemma os_RemoveAll_run:
  "os_RemoveAll P path (w, tr) =
    (fst (sys_RemoveAll P path w),
     snd (sys_RemoveAll P path w), tr @ [(CRemoveAll path, fst (sys_RemoveAll P path w))])"
  by (simp add: os_RemoveAll_def split: prod.splits)

lemma unix_Mount_run:
  "unix_Mount P src tgt ty fl d (w, tr) =
    (fst (sys_Mount P src tgt ty fl d w),
     snd (sys_Mount P src tgt ty fl d w),
     tr @ [(CMount src tgt ty fl d, fst (sys_Mount P src tgt ty fl d w))])"
  by (simp add: unix_Mount_def split: prod.splits)

lemma unix_Unmount_run:
  "unix_Unmount P tgt fl (w, tr) =
    (fst (sys_Unmount P tgt fl w),
     snd (sys_Unmount P tgt fl w), tr @ [(CUnmount tgt fl, fst (sys_Unmount P tgt fl w))])"
  by (simp add: unix_Unmount_def split: prod.splits)

lemma netlink_LinkAdd_run:
  "netlink_LinkAdd P link (w, tr) =
    (fst (sys_LinkAdd P link w),
     snd (sys_LinkAdd P link w), tr @ [(CLinkAdd link, fst (sys_LinkAdd P link w))])"
  by (simp add: netlink_LinkAdd_def split: prod.splits)

lemma netlink_LinkByName_run:
  "netlink_LinkByName P name (w, tr) =
    (fst (sys_LinkByName P name w),
     snd (sys_LinkByName P name w),
     tr @ [(CLinkByName name, failure (fst (sys_LinkByName P name w)))])"
  by (simp add: netlink_LinkByName_def split: prod.splits)

lemma netlink_LinkSetNsPid_run:
  "netlink_LinkSetNsPid P link nspid (w, tr) =
    (fst (sys_LinkSetNsPid P link nspid w),
     snd (sys_LinkSetNsPid P link nspid w),
     tr @ [(CLinkSetNsPid link nspid, fst (sys_LinkSetNsPid P link nspid w))])"
  by (simp add: netlink_LinkSetNsPid_def split: prod.splits)

lemma fmt_Fprintf_run:
  "fmt_Fprintf P text (w, tr) = (sys_Fprintf P text w, tr @ [(CFprintf text, None)])"
  by (simp add: fmt_Fprintf_def)

lemmas fs_run = os_MkdirAll_run os_Mkdir_run os_Stat_run os_Create_run file_Close_run
  os_RemoveAll_run unix_Mount_run unix_Unmount_run

lemmas net_run = netlink_LinkAdd_run netlink_LinkByName_run netlink_LinkSetNsPid_run
  fmt_Fprintf_run

lemmas scripted_run = scripted_def answer_def answer_with_def failure_def

section \<open>Properties of prepareFilesystem and cleanup\<close>

lemma prepareRW_run:
  assumes "prepareRW P path (w, tr) = (r, (w', tr'))"
  shows "\<exists>evs. tr' = tr @ evs \<and>
    runs_until_failure
      [CMount ''tmpfs'' (filepath_Join P [path, ''tmp'']) ''tmpfs'' 0 ''size=10%'',
       CMount [] (filepath_Join P [path, ''tmp'']) [] (MS_REMOUNT OR MS_PRIVATE) [],
       CMkdir (filepath_Join P [filepath_Join P [path, ''tmp''], ''upper'']) mode_0755,
       CMkdir (filepath_Join P [filepath_Join P [path, ''tmp''], ''work'']) mode_0755,
       CMount ''overlay'' (filepath_Join P [path, ''rootfs'']) ''overlay'' 0
         (''lowerdir='' @ filepath_Join P [path, ''lower'']
          @ '',upperdir='' @ filepath_Join P [filepath_Join P [path, ''tmp''], ''upper'']
          @ '',workdir='' @ filepath_Join P [filepath_Join P [path, ''tmp''], ''work''])] evs
    \<and> r = map_option Unwrapped (snd (last evs))"
  using assms
  by (auto simp: prepareRW_def fs_run Let_def runs_until_failure_def split: option.splits)





text \<open>
  C5. \<^verbatim>\<open>cleanup\<close> returns no error: its result is the state alone. After the probe of
  \<^verbatim>\<open>lower\<close> it makes, whatever each call answers, one call when the probe failed (the
  unmount of \<^verbatim>\<open>rootfs\<close>) and four calls when the probe succeeded: removal of
  \<^verbatim>\<open>rootfs\<close>, unmount of \<^verbatim>\<open>rootfs\<close>, removal of \<^verbatim>\<open>tmp\<close>, unmount of \<^verbatim>\<open>tmp\<close>,
  in that order.
\<close>

theorem cleanup_calls:
  "\<exists>evs. snd (cleanup P path (w, tr)) = tr @ evs \<and>
     map fst evs =
       CStat (filepath_Join P [path, ''lower'']) #
       (if fst (sys_Stat P (filepath_Join P [path, ''lower'']) w) = None
        then [CRemoveAll (filepath_Join P [path, ''rootfs'']),
              CUnmount (filepath_Join P [path, ''rootfs'']) 0,
              CRemoveAll (filepath_Join P [path, ''tmp'']),
              CUnmount (filepath_Join P [path, ''tmp'']) 0]
        else [CUnmount (filepath_Join P [path, ''rootfs'']) 0])"
  by (cases "fst (sys_Stat P (filepath_Join P [path, ''lower'']) w)")
     (simp_all add: cleanup_def cleanupRO_def cleanupRW_def fs_run Let_def)

text \<open>
  Witness for C5: \<^verbatim>\<open>/c/lower\<close> exists and every one of the four teardown calls fails;
  all four are made.
\<close>

theorem cleanup_calls_witness:
  "cleanup scripted ''/c'' ([None, Some EACCES, Some EACCES, Some EACCES, Some EACCES], []) =
     ([], [(CStat ''/c/lower'', None),
           (CRemoveAll ''/c/rootfs'', Some EACCES),
           (CUnmount ''/c/rootfs'' 0, Some EACCES),
           (CRemoveAll ''/c/tmp'', Some EACCES),
           (CUnmount ''/c/tmp'' 0, Some EACCES)])
   \<and> (\<exists>evs. snd (cleanup scripted ''/c''
                 ([None, Some EACCES, Some EACCES, Some EACCES, Some EACCES], [])) = [] @ evs
        \<and> map fst evs =
            [CStat ''/c/lower'', CRemoveAll ''/c/rootfs'', CUnmount ''/c/rootfs'' 0,
             CRemoveAll ''/c/tmp'', CUnmount ''/c/tmp'' 0])"
proof -
  let ?w = "[None, Some EACCES, Some EACCES, Some EACCES, Some EACCES]"
  have v: "cleanup scripted ''/c'' (?w, []) =
     ([], [(CStat ''/c/lower'', None),
           (CRemoveAll ''/c/rootfs'', Some EACCES),
           (CUnmount ''/c/rootfs'' 0, Some EACCES),
           (CRemoveAll ''/c/tmp'', Some EACCES),
           (CUnmount ''/c/tmp'' 0, Some EACCES)])"
    by (simp add: cleanup_def cleanupRW_def fs_run scripted_run Let_def)
  have j: "filepath_Join scripted [''/c'', ''lower''] = ''/c/lower''"
    "filepath_Join scripted [''/c'', ''tmp''] = ''/c/tmp''"
    "filepath_Join scripted [''/c'', ''rootfs''] = ''/c/rootfs''"
    by (simp_all add: scripted_def)
  have p: "fst (sys_Stat scripted ''/c/lower'' ?w) = None"
    by (simp add: scripted_run)
  have c: "\<exists>evs. snd (cleanup scripted ''/c'' (?w, [])) = [] @ evs
        \<and> map fst evs =
            [CStat ''/c/lower'', CRemoveAll ''/c/rootfs'', CUnmount ''/c/rootfs'' 0,
             CRemoveAll ''/c/tmp'', CUnmount ''/c/tmp'' 0]"
    using cleanup_calls[of scripted "''/c''" ?w "[]"] unfolding j p by simp
  from v c show ?thesis by (intro conjI)
qed

text \<open>
  C1, as amended. \<^verbatim>\<open>cleanup\<close> probes \<^verbatim>\<open>lower\<close> with the same call as
  \<^verbatim>\<open>prepareFilesystem\<close>, and on the same answer: when the probe succeeds both take the
  writable side (\<^verbatim>\<open>cleanupRW\<close>, \<^verbatim>\<open>prepareRW\<close>); when it fails \<^verbatim>\<open>cleanup\<close> always
  takes the read-only teardown, while \<^verbatim>\<open>prepareFilesystem\<close> takes the read-only strategy
  only for an error that says the path does not exist and otherwise returns the error
  of the probe and makes no further call.
\<close>

theorem cleanup_probe:
  assumes "prepareFilesystem_mounts P (Mounts runtime) s0 = (None, sa)"
    and "prepareFilesystem_mkdirs P (Mkdir runtime) sa = (None, s)"
    and "os_Stat P (filepath_Join P [path, ''lower'']) s = (r, s1)"
  shows "cleanup P path s =
           (case r of None \<Rightarrow> cleanupRW P path s1 | Some err \<Rightarrow> cleanupRO P path s1)
    \<and> prepareFilesystem P path runtime s0 =
        (case r of None \<Rightarrow> prepareRW P path s1
         | Some err \<Rightarrow> if os_IsNotExist err then prepareRO P path s1
                        else (Some (Unwrapped err), s1))"
  using assms by (simp add: cleanup_def prepareFilesystem_def split: option.splits)

text \<open>
  Witness for C1 as amended: \<^verbatim>\<open>/c/lower\<close> does not exist; \<^verbatim>\<open>cleanup\<close> runs the
  read-only teardown and \<^verbatim>\<open>prepareFilesystem\<close> the read-only strategy.
\<close>

theorem cleanup_probe_witness:
  "prepareFilesystem_mounts scripted (Mounts empty_runtime) ([Some ENOENT], [])
     = (None, ([Some ENOENT], []))
   \<and> prepareFilesystem_mkdirs scripted (Mkdir empty_runtime) ([Some ENOENT], [])
     = (None, ([Some ENOENT], []))
   \<and> os_Stat scripted (filepath_Join scripted [''/c'', ''lower'']) ([Some ENOENT], [])
     = (Some ENOENT, ([], [(CStat ''/c/lower'', Some ENOENT)]))
   \<and> cleanup scripted ''/c'' ([Some ENOENT], []) =
       cleanupRO scripted ''/c'' ([], [(CStat ''/c/lower'', Some ENOENT)])
   \<and> prepareFilesystem scripted ''/c'' empty_runtime ([Some ENOENT], []) =
       prepareRO scripted ''/c'' ([], [(CStat ''/c/lower'', Some ENOENT)])"
proof -
  let ?s = "([Some ENOENT], []) :: oserr option list state"
  have h1: "prepareFilesystem_mounts scripted (Mounts empty_runtime) ?s = (None, ?s)"
    by (simp add: empty_runtime_def)
  have h2: "prepareFilesystem_mkdirs scripted (Mkdir empty_runtime) ?s = (None, ?s)"
    by (simp add: empty_runtime_def)
  have h3: "os_Stat scripted (filepath_Join scripted [''/c'', ''lower'']) ?s
     = (Some ENOENT, ([], [(CStat ''/c/lower'', Some ENOENT)]))"
    by (simp add: fs_run scripted_run)
  have n: "os_IsNotExist ENOENT"
    by (simp add: ENOENT_def)
  from cleanup_probe[OF h1 h2 h3] n
  have c: "cleanup scripted ''/c'' ?s =
       cleanupRO scripted ''/c'' ([], [(CStat ''/c/lower'', Some ENOENT)])
     \<and> prepareFilesystem scripted ''/c'' empty_runtime ?s =
       prepareRO scripted ''/c'' ([], [(CStat ''/c/lower'', Some ENOENT)])"
    by simp
  from h1 h2 h3 c show ?thesis by (intro conjI) simp_all
qed

text \<open>
  C1 as stated fails. When the probe of \<^verbatim>\<open>/c/lower\<close> is refused (an error other than
  non-existence), \<^verbatim>\<open>cleanup\<close> runs the read-only teardown and unmounts \<^verbatim>\<open>/c/rootfs\<close>,
  while \<^verbatim>\<open>prepareFilesystem\<close> does not run the read-only strategy: it returns the error.
\<close>

theorem cleanup_probe_counterexample:
  "os_Stat scripted ''/c/lower'' ([Some EACCES], [])
     = (Some EACCES, ([], [(CStat ''/c/lower'', Some EACCES)]))
   \<and> \<not> os_IsNotExist EACCES
   \<and> cleanup scripted ''/c'' ([Some EACCES], []) =
      cleanupRO scripted ''/c'' ([], [(CStat ''/c/lower'', Some EACCES)])
   \<and> cleanup scripted ''/c'' ([Some EACCES], []) =
      ([], [(CStat ''/c/lower'', Some EACCES), (CUnmount ''/c/rootfs'' 0, None)])
   \<and> prepareFilesystem scripted ''/c'' empty_runtime ([Some EACCES], []) =
      (Some (Unwrapped EACCES), ([], [(CStat ''/c/lower'', Some EACCES)]))
   \<and> prepareFilesystem scripted ''/c'' empty_runtime ([Some EACCES], []) \<noteq>
      prepareRO scripted ''/c'' ([], [(CStat ''/c/lower'', Some EACCES)])"
  by (simp add: cleanup_def cleanupRO_def prepareFilesystem_def prepareRO_def empty_runtime_def
      fs_run scripted_run EACCES_def Let_def)

section \<open>Properties of bindNS\<close>



section \<open>Properties of prepareProcess\<close>

lemma prepareProcess_interfaces_append:
  "prepareProcess_interfaces P pid (xs @ ys) s =
    (case prepareProcess_interfaces P pid xs s of
       (Some e, s1) \<Rightarrow> (Some e, s1)
     | (None, s1) \<Rightarrow> prepareProcess_interfaces P pid ys s1)"
  by (induction xs arbitrary: s) (auto split: prod.splits option.splits)

lemma prepareProcess_iface_veth_no_peer:
  assumes "effective_Add iface = ''veth''" and "Peer iface = []"
  shows "prepareProcess_iface P pid iface s =
    (Some (Errorf (if Name iface = [] then ''Interface requires a name''
                   else ''Creating a veth pair '' @ Name iface @ '' requires a peer to be set'')),
     s)"
  using assms by (simp add: prepareProcess_iface_def effective_Add_def Let_def)

text \<open>
  C8. Let an interface of the list have the effective creation kind \<^verbatim>\<open>veth\<close> and an empty
  peer. Then \<^verbatim>\<open>prepareProcess\<close> fails. If an earlier interface fails, that error is the
  result; otherwise the result is an error raised for this interface, and the state is
  the one the earlier interfaces left: no call at all is made for this interface (so no
  link is created for it), none for a later interface, and no namespace is bound.
\<close>

theorem veth_requires_peer:
  assumes "effective_Add iface = ''veth''" and "Peer iface = []"
    and "Interfaces runtime = pre @ iface # post"
  shows "(\<exists>e. fst (prepareProcess P pid runtime s) = Some e)
    \<and> prepareProcess P pid runtime s =
       (case prepareProcess_interfaces P pid pre s of
          (Some e, s1) \<Rightarrow> (Some e, s1)
        | (None, s1) \<Rightarrow>
            (Some (Errorf (if Name iface = [] then ''Interface requires a name''
                           else ''Creating a veth pair '' @ Name iface
                                @ '' requires a peer to be set'')), s1))"
proof -
  obtain r1 s1 where p: "prepareProcess_interfaces P pid pre s = (r1, s1)"
    by (cases "prepareProcess_interfaces P pid pre s")
  have i: "prepareProcess_iface P pid iface s1 =
    (Some (Errorf (if Name iface = [] then ''Interface requires a name''
                   else ''Creating a veth pair '' @ Name iface @ '' requires a peer to be set'')),
     s1)"
    using assms(1,2) by (rule prepareProcess_iface_veth_no_peer)
  show ?thesis
  proof (cases r1)
    case None
    with p i assms(3) show ?thesis
      by (simp add: prepareProcess_def prepareProcess_interfaces_append)
  next
    case (Some e)
    with p assms(3) show ?thesis
      by (simp add: prepareProcess_def prepareProcess_interfaces_append)
  qed
qed





text \<open>
  Witness for C8: the second interface asks for a veth pair and names no peer. The
  first one, an existing link, is moved; then the error is raised and nothing else is
  done: no link is added and the configured \<^verbatim>\<open>net\<close> bind is not attempted.
\<close>

theorem veth_requires_peer_witness:
  "effective_Add \<lparr>Name = ''veth0'', Add = ''veth'', Peer = [], CreateInRoot = False\<rparr> = ''veth''
   \<and> Peer \<lparr>Name = ''veth0'', Add = ''veth'', Peer = [], CreateInRoot = False\<rparr> = []
   \<and> prepareProcess scripted 42
        (empty_runtime\<lparr>Interfaces :=
           [\<lparr>Name = ''eth1'', Add = [], Peer = [], CreateInRoot = False\<rparr>]
           @ \<lparr>Name = ''veth0'', Add = ''veth'', Peer = [], CreateInRoot = False\<rparr>
           # [\<lparr>Name = ''dummy0'', Add = ''dummy'', Peer = [], CreateInRoot = False\<rparr>],
           BindNS := (BindNS empty_runtime)\<lparr>Net := ''/run/ns/net''\<rparr>\<rparr>) ([], [])
      = (Some (Errorf ''Creating a veth pair veth0 requires a peer to be set''),
         ([], [(CLinkByName ''eth1'', None),
               (CLinkSetNsPid (Existing 7) 42, None),
               (CFprintf (''Moved interface eth1 to pid 42'' @ [CHR 0x0A]), None)]))"
proof -
  let ?v = "\<lparr>Name = ''veth0'', Add = ''veth'', Peer = [], CreateInRoot = False\<rparr>"
  let ?pre = "[\<lparr>Name = ''eth1'', Add = [], Peer = [], CreateInRoot = False\<rparr>]"
  let ?post = "[\<lparr>Name = ''dummy0'', Add = ''dummy'', Peer = [], CreateInRoot = False\<rparr>]"
  let ?rt = "empty_runtime\<lparr>Interfaces := ?pre @ ?v # ?post,
               BindNS := (BindNS empty_runtime)\<lparr>Net := ''/run/ns/net''\<rparr>\<rparr>"
  have h1: "effective_Add ?v = ''veth''" by (simp add: effective_Add_def)
  have h2: "Peer ?v = []" by simp
  have h3: "Interfaces ?rt = ?pre @ ?v # ?post" by simp
  have p: "prepareProcess_interfaces scripted 42 ?pre ([], []) =
      (None, ([], [(CLinkByName ''eth1'', None),
               (CLinkSetNsPid (Existing 7) 42, None),
               (CFprintf (''Moved interface eth1 to pid 42'' @ [CHR 0x0A]), None)]))"
    by (simp add: prepareProcess_iface_def prepareProcess_move_def Let_def net_run
        scripted_run itoa_def)
  from veth_requires_peer[OF h1 h2 h3, of scripted 42 "([], [])"] p
  have c: "prepareProcess scripted 42 ?rt ([], [])
      = (Some (Errorf ''Creating a veth pair veth0 requires a peer to be set''),
         ([], [(CLinkByName ''eth1'', None),
               (CLinkSetNsPid (Existing 7) 42, None),
               (CFprintf (''Moved interface eth1 to pid 42'' @ [CHR 0x0A]), None)]))"
    by simp
  from h1 h2 c show ?thesis by (intro conjI)
qed







section \<open>The mounts of the configuration\<close>

lemma succeeded_mount_steps:
  "succeeded (mount_steps m) =
    [(CMkdirAll (Destination m) mode_0755, None),
     (CMount (Source m) (Destination m) (Type m)
        (fst (parseMountOptions (Options m))) (snd (parseMountOptions (Options m))), None)]"
  by (simp add: succeeded_def mount_steps_def)

lemma succeeded_append: "succeeded (xs @ ys) = succeeded xs @ succeeded ys"
  by (simp add: succeeded_def)

lemma prepareFilesystem_mounts_run:
  "prepareFilesystem_mounts P ms (w, tr) = (r, (w', tr')) \<Longrightarrow>
    (r = None \<and> tr' = tr @ succeeded (concat (map mount_steps ms)))
    \<or> (\<exists>pre m post e. ms = pre @ m # post \<and>
         ((r = Some (Errorf (''Cannot create directory for mount destination ''
                              @ Destination m @ '': '' @ Error e))
           \<and> tr' = tr @ succeeded (concat (map mount_steps pre))
                     @ [(CMkdirAll (Destination m) mode_0755, Some e)])
        \<or> (r = Some (Errorf (''Failed to mount '' @ Source m @ '': '' @ Error e))
           \<and> tr' = tr @ succeeded (concat (map mount_steps pre))
                     @ [(CMkdirAll (Destination m) mode_0755, None),
                        (CMount (Source m) (Destination m) (Type m)
                           (fst (parseMountOptions (Options m)))
                           (snd (parseMountOptions (Options m))), Some e)])))"
proof (induction ms arbitrary: w tr)
  case Nil
  then show ?case by (simp add: succeeded_def)
next
  case (Cons m ms)
  let ?mk = "sys_MkdirAll P (Destination m) mode_0755 w"
  let ?fl = "fst (parseMountOptions (Options m))"
  let ?da = "snd (parseMountOptions (Options m))"
  let ?mo = "sys_Mount P (Source m) (Destination m) (Type m) ?fl ?da (snd ?mk)"
  show ?case
  proof (cases "fst ?mk")
    case (Some e)
    with Cons.prems have
      "r = Some (Errorf (''Cannot create directory for mount destination ''
                              @ Destination m @ '': '' @ Error e))"
      "tr' = tr @ succeeded (concat (map mount_steps [])) @ [(CMkdirAll (Destination m) mode_0755, Some e)]"
      by (auto simp: fs_run succeeded_def)
    moreover have "m # ms = [] @ m # ms" by simp
    ultimately show ?thesis by blast
  next
    case None
    note mk = None
    show ?thesis
    proof (cases "fst ?mo")
      case (Some e)
      with Cons.prems mk have
        "r = Some (Errorf (''Failed to mount '' @ Source m @ '': '' @ Error e))"
        "tr' = tr @ succeeded (concat (map mount_steps []))
                     @ [(CMkdirAll (Destination m) mode_0755, None),
                        (CMount (Source m) (Destination m) (Type m) ?fl ?da, Some e)]"
        by (auto simp: fs_run succeeded_def split: prod.splits)
      moreover have "m # ms = [] @ m # ms" by simp
      ultimately show ?thesis by blast
    next
      case None
      let ?tr1 = "tr @ succeeded (mount_steps m)"
      from Cons.prems mk None
      have rec: "prepareFilesystem_mounts P ms (snd ?mo, ?tr1) = (r, (w', tr'))"
        by (auto simp: fs_run succeeded_mount_steps split: prod.splits)
      from Cons.IH[OF rec] show ?thesis
      proof
        assume "r = None \<and> tr' = ?tr1 @ succeeded (concat (map mount_steps ms))"
        then have "r = None \<and> tr' = tr @ succeeded (concat (map mount_steps (m # ms)))"
          by (simp add: succeeded_append)
        then show ?thesis by blast
      next
        assume "\<exists>pre m' post e. ms = pre @ m' # post \<and>
         ((r = Some (Errorf (''Cannot create directory for mount destination ''
                              @ Destination m' @ '': '' @ Error e))
           \<and> tr' = ?tr1 @ succeeded (concat (map mount_steps pre))
                     @ [(CMkdirAll (Destination m') mode_0755, Some e)])
        \<or> (r = Some (Errorf (''Failed to mount '' @ Source m' @ '': '' @ Error e))
           \<and> tr' = ?tr1 @ succeeded (concat (map mount_steps pre))
                     @ [(CMkdirAll (Destination m') mode_0755, None),
                        (CMount (Source m') (Destination m') (Type m')
                           (fst (parseMountOptions (Options m')))
                           (snd (parseMountOptions (Options m'))), Some e)]))"
        then obtain pre m' post e where s: "ms = pre @ m' # post" and
          d: "(r = Some (Errorf (''Cannot create directory for mount destination ''
                              @ Destination m' @ '': '' @ Error e))
           \<and> tr' = ?tr1 @ succeeded (concat (map mount_steps pre))
                     @ [(CMkdirAll (Destination m') mode_0755, Some e)])
        \<or> (r = Some (Errorf (''Failed to mount '' @ Source m' @ '': '' @ Error e))
           \<and> tr' = ?tr1 @ succeeded (concat (map mount_steps pre))
                     @ [(CMkdirAll (Destination m') mode_0755, None),
                        (CMount (Source m') (Destination m') (Type m')
                           (fst (parseMountOptions (Options m')))
                           (snd (parseMountOptions (Options m'))), Some e)])"
          by blast
        from s have s': "m # ms = (m # pre) @ m' # post" by simp
        from d have d': "(r = Some (Errorf (''Cannot create directory for mount destination ''
                              @ Destination m' @ '': '' @ Error e))
           \<and> tr' = tr @ succeeded (concat (map mount_steps (m # pre)))
                     @ [(CMkdirAll (Destination m') mode_0755, Some e)])
        \<or> (r = Some (Errorf (''Failed to mount '' @ Source m' @ '': '' @ Error e))
           \<and> tr' = tr @ succeeded (concat (map mount_steps (m # pre)))
                     @ [(CMkdirAll (Destination m') mode_0755, None),
                        (CMount (Source m') (Destination m') (Type m')
                           (fst (parseMountOptions (Options m')))
                           (snd (parseMountOptions (Options m'))), Some e)])"
          by (simp add: succeeded_append)
        from s' d' show ?thesis by blast
      qed
    qed
  qed
qed

lemma prepareFilesystem_mkdirs_trace:
  "prepareFilesystem_mkdirs P dirs (w, tr) = (r, (w', tr')) \<Longrightarrow> \<exists>evs. tr' = tr @ evs"
proof (induction dirs arbitrary: w tr)
  case Nil
  then show ?case by simp
next
  case (Cons dir dirs)
  show ?case
  proof (cases "fst (sys_MkdirAll P dir mode_0755 w)")
    case (Some e)
    with Cons.prems show ?thesis by (auto simp: fs_run)
  next
    case None
    with Cons.prems have
      "prepareFilesystem_mkdirs P dirs
         (snd (sys_MkdirAll P dir mode_0755 w), tr @ [(CMkdirAll dir mode_0755, None)])
       = (r, (w', tr'))"
      by (auto simp: fs_run)
    from Cons.IH[OF this] show ?thesis by auto
  qed
qed

lemma prepareRO_trace:
  "prepareRO P path (w, tr) = (r, (w', tr')) \<Longrightarrow> \<exists>evs. tr' = tr @ evs"
  by (auto simp: prepareRO_def fs_run Let_def split: option.splits)

lemma prepareRW_trace:
  assumes "prepareRW P path (w, tr) = (r, (w', tr'))"
  shows "\<exists>evs. tr' = tr @ evs"
proof -
  from prepareRW_run[OF assms] obtain evs where "tr' = tr @ evs"
    by (elim exE conjE)
  then show ?thesis ..
qed

lemma prepareFilesystem_after_mounts:
  assumes "prepareFilesystem_mounts P (Mounts runtime) (w, tr) = (None, (w1, tr1))"
    and "prepareFilesystem P path runtime (w, tr) = (r, (w', tr'))"
  shows "\<exists>evs. tr' = tr1 @ evs"
proof -
  obtain r2 w2 tr2 where k: "prepareFilesystem_mkdirs P (Mkdir runtime) (w1, tr1) = (r2, (w2, tr2))"
    by (metis prod.exhaust)
  from prepareFilesystem_mkdirs_trace[OF k] obtain e2 where e2: "tr2 = tr1 @ e2" by blast
  show ?thesis
  proof (cases r2)
    case (Some e)
    with assms k e2 show ?thesis by (auto simp: prepareFilesystem_def)
  next
    case None
    let ?st = "sys_Stat P (filepath_Join P [path, ''lower'']) w2"
    let ?tr3 = "tr2 @ [(CStat (filepath_Join P [path, ''lower'']), fst ?st)]"
    from assms k None have
      "(\<exists>err. r = Some (Unwrapped err) \<and> tr' = ?tr3)
       \<or> prepareRO P path (snd ?st, ?tr3) = (r, (w', tr'))
       \<or> prepareRW P path (snd ?st, ?tr3) = (r, (w', tr'))"
      by (auto simp: prepareFilesystem_def fs_run split: option.splits if_splits)
    then show ?thesis
    proof (elim disjE exE conjE)
      fix err
      assume "tr' = ?tr3"
      with e2 show ?thesis by simp
    next
      assume "prepareRO P path (snd ?st, ?tr3) = (r, (w', tr'))"
      from prepareRO_trace[OF this] obtain e3 where "tr' = ?tr3 @ e3" ..
      with e2 show ?thesis by simp
    next
      assume "prepareRW P path (snd ?st, ?tr3) = (r, (w', tr'))"
      from prepareRW_trace[OF this] obtain e3 where "tr' = ?tr3 @ e3" ..
      with e2 show ?thesis by simp
    qed
  qed
qed

text \<open>
  C6. \<^verbatim>\<open>prepareFilesystem\<close> works through \<^verbatim>\<open>runtime.Mounts\<close> in the declared order,
  and for each mount first creates the destination with \<^verbatim>\<open>MkdirAll\<close> and mode 0755 and
  then mounts. Either all these calls succeeded, one mount after the other, before
  anything else was done; or there is a first mount whose \<^verbatim>\<open>MkdirAll\<close> or mount call
  failed: the calls of the mounts before it all succeeded, the failing call is the last
  call made at all (no later mount, no later step), and the result is an error naming
  the destination (for the directory) or the source (for the mount) of that mount.
\<close>

theorem prepareFilesystem_mounts_in_order:
  assumes "prepareFilesystem P path runtime (w, tr) = (r, (w', tr'))"
  shows "(\<exists>later. tr' = tr @ succeeded (concat (map mount_steps (Mounts runtime))) @ later)
    \<or> (\<exists>pre m post e. Mounts runtime = pre @ m # post \<and>
         ((r = Some (Errorf (''Cannot create directory for mount destination ''
                              @ Destination m @ '': '' @ Error e))
           \<and> tr' = tr @ succeeded (concat (map mount_steps pre))
                     @ [(CMkdirAll (Destination m) mode_0755, Some e)])
        \<or> (r = Some (Errorf (''Failed to mount '' @ Source m @ '': '' @ Error e))
           \<and> tr' = tr @ succeeded (concat (map mount_steps pre))
                     @ [(CMkdirAll (Destination m) mode_0755, None),
                        (CMount (Source m) (Destination m) (Type m)
                           (fst (parseMountOptions (Options m)))
                           (snd (parseMountOptions (Options m))), Some e)])))"
proof -
  obtain r1 w1 tr1 where
    m: "prepareFilesystem_mounts P (Mounts runtime) (w, tr) = (r1, (w1, tr1))"
    by (metis prod.exhaust)
  show ?thesis
  proof (cases r1)
    case None
    with prepareFilesystem_mounts_run[OF m]
    have t: "tr1 = tr @ succeeded (concat (map mount_steps (Mounts runtime)))" by auto
    from m None have "prepareFilesystem_mounts P (Mounts runtime) (w, tr) = (None, (w1, tr1))"
      by simp
    from prepareFilesystem_after_mounts[OF this assms] obtain evs where "tr' = tr1 @ evs" ..
    with t have "tr' = tr @ succeeded (concat (map mount_steps (Mounts runtime))) @ evs" by simp
    then show ?thesis by blast
  next
    case (Some err)
    with m assms have "r = Some err" "w' = w1" "tr' = tr1"
      by (auto simp: prepareFilesystem_def)
    with m Some have
      m': "prepareFilesystem_mounts P (Mounts runtime) (w, tr) = (r, (w', tr'))"
      and f: "r \<noteq> None"
      by simp_all
    from prepareFilesystem_mounts_run[OF m'] f show ?thesis
      by (elim disjE) (simp, rule disjI2)
  qed
qed

text \<open>
  Witness for C6: with the example configuration the first mount goes through and the
  mount call of the second one is refused. The trace ends there and the error names
  \<^verbatim>\<open>/dev/sda1\<close>.
\<close>

theorem prepareFilesystem_mounts_in_order_witness:
  "prepareFilesystem scripted ''/c'' example_runtime ([None, None, None, Some EACCES], []) =
     (Some (Errorf ''Failed to mount /dev/sda1: permission denied''),
      ([], [(CMkdirAll ''/var/lib'' mode_0755, None),
            (CMount ''tmpfs'' ''/var/lib'' ''tmpfs'' MS_NOSUID ''size=10%'', None),
            (CMkdirAll ''/mnt/data'' mode_0755, None),
            (CMount ''/dev/sda1'' ''/mnt/data'' ''ext4'' MS_RDONLY [], Some EACCES)]))
   \<and> ((\<exists>later.
          [(CMkdirAll ''/var/lib'' mode_0755, None),
           (CMount ''tmpfs'' ''/var/lib'' ''tmpfs'' MS_NOSUID ''size=10%'', None),
           (CMkdirAll ''/mnt/data'' mode_0755, None),
           (CMount ''/dev/sda1'' ''/mnt/data'' ''ext4'' MS_RDONLY [], Some EACCES)]
          = [] @ succeeded (concat (map mount_steps (Mounts example_runtime))) @ later)
      \<or> (\<exists>pre m post e. Mounts example_runtime = pre @ m # post \<and>
           ((Some (Errorf ''Failed to mount /dev/sda1: permission denied'')
               = Some (Errorf (''Cannot create directory for mount destination ''
                                @ Destination m @ '': '' @ Error e))
             \<and> [(CMkdirAll ''/var/lib'' mode_0755, None),
                (CMount ''tmpfs'' ''/var/lib'' ''tmpfs'' MS_NOSUID ''size=10%'', None),
                (CMkdirAll ''/mnt/data'' mode_0755, None),
                (CMount ''/dev/sda1'' ''/mnt/data'' ''ext4'' MS_RDONLY [], Some EACCES)]
               = [] @ succeeded (concat (map mount_steps pre))
                    @ [(CMkdirAll (Destination m) mode_0755, Some e)])
          \<or> (Some (Errorf ''Failed to mount /dev/sda1: permission denied'')
               = Some (Errorf (''Failed to mount '' @ Source m @ '': '' @ Error e))
             \<and> [(CMkdirAll ''/var/lib'' mode_0755, None),
                (CMount ''tmpfs'' ''/var/lib'' ''tmpfs'' MS_NOSUID ''size=10%'', None),
                (CMkdirAll ''/mnt/data'' mode_0755, None),
                (CMount ''/dev/sda1'' ''/mnt/data'' ''ext4'' MS_RDONLY [], Some EACCES)]
               = [] @ succeeded (concat (map mount_steps pre))
                    @ [(CMkdirAll (Destination m) mode_0755, None),
                       (CMount (Source m) (Destination m) (Type m)
                          (fst (parseMountOptions (Options m)))
                          (snd (parseMountOptions (Options m))), Some e)]))))"
proof -
  have o1: "parseMountOptions [''nosuid'', ''size=10%''] = (MS_NOSUID, ''size=10%'')"
    by (simp add: parseMountOptions_def parseMountOption_def flags_def MS_NOSUID_def)
  have o2: "parseMountOptions [''ro''] = (MS_RDONLY, [])"
    by (simp add: parseMountOptions_def parseMountOption_def flags_def MS_RDONLY_def)
  have h: "prepareFilesystem scripted ''/c'' example_runtime
      ([None, None, None, Some EACCES], []) =
     (Some (Errorf ''Failed to mount /dev/sda1: permission denied''),
      ([], [(CMkdirAll ''/var/lib'' mode_0755, None),
            (CMount ''tmpfs'' ''/var/lib'' ''tmpfs'' MS_NOSUID ''size=10%'', None),
            (CMkdirAll ''/mnt/data'' mode_0755, None),
            (CMount ''/dev/sda1'' ''/mnt/data'' ''ext4'' MS_RDONLY [], Some EACCES)]))"
    by (simp add: prepareFilesystem_def example_runtime_def o1 o2 fs_run scripted_run
        EACCES_def)
  from h prepareFilesystem_mounts_in_order[OF h] show ?thesis by (intro conjI)
qed

end
